theory Spec2Isabelle
  imports Main
begin

section \<open>Payments: normalising the results of remote calls\<close>

text \<open>
  Source: \<^verbatim>\<open>src/api/gramjs/methods/payments.ts\<close>. Every exported function builds one
  request, awaits \<^verbatim>\<open>invokeRequest\<close> once and then inspects the awaited \<^verbatim>\<open>result\<close>. The
  model starts where the awaited result is at hand: the result is an argument, \<open>None\<close>
  standing for the absent (falsy) result, and each function returns its return value
  together with the list of side effects it performed, in program order. A returned
  \<^verbatim>\<open>undefined\<close> is \<open>None\<close>. Builders imported from \<^verbatim>\<open>apiBuilders\<close> and the constant
  \<^verbatim>\<open>DEBUG\<close> are not part of the two files and are taken as parameters.
\<close>

subsection \<open>Side effects\<close>

text \<open>The record passed to \<^verbatim>\<open>sendApiUpdate\<close>: its \<^verbatim>\<open>'@type'\<close> tag and its \<^verbatim>\<open>url\<close>.\<close>

record api_update =
  atType :: string
  url :: string

text \<open>
  The calls with an effect outside the function: \<^verbatim>\<open>sendApiUpdate\<close> (the notification
  channel), \<^verbatim>\<open>handleGramJsUpdate\<close>, \<^verbatim>\<open>console.warn\<close>, \<^verbatim>\<open>addWebDocumentToLocalDb\<close> and
  the assignment \<^verbatim>\<open>localDb.documents[key] = video\<close>.
\<close>

datatype ('u, 'w, 'd) effect =
    SendApiUpdate api_update
  | HandleGramJsUpdate 'u
  | ConsoleWarn string
  | AddWebDocumentToLocalDb 'w
  | LocalDbDocumentsSet string 'd

fun isNotification :: "('u, 'w, 'd) effect \<Rightarrow> bool" where
  "isNotification (SendApiUpdate _) = True"
| "isNotification _ = False"

fun isUpdateHandling :: "('u, 'w, 'd) effect \<Rightarrow> bool" where
  "isUpdateHandling (HandleGramJsUpdate _) = True"
| "isUpdateHandling _ = False"

subsection \<open>validateRequestedInfo\<close>

text \<open>\<^verbatim>\<open>payments.ValidatedRequestedInfo\<close>: both fields are optional on the wire.\<close>

datatype 's ValidatedRequestedInfo =
  ValidatedRequestedInfo (info_id: "string option") (info_shippingOptions: 's)

record 'o requested_info =
  id_field :: string
  shippingOptions :: 'o

definition validateRequestedInfo ::
  "('s \<Rightarrow> 'o) \<Rightarrow> 's ValidatedRequestedInfo option
     \<Rightarrow> 'o requested_info option \<times> ('u, 'w, 'd) effect list" where
  "validateRequestedInfo buildShippingOptions result =
     (case result of
        None \<Rightarrow> (None, [])
      | Some r \<Rightarrow>
          (case info_id r of
             None \<Rightarrow> (None, [])
           | Some i \<Rightarrow>
               if i = [] then (None, [])
               else (Some \<lparr>id_field = i,
                            shippingOptions = buildShippingOptions (info_shippingOptions r)\<rparr>, [])))"

subsection \<open>sendPaymentForm and sendStarPaymentForm\<close>

text \<open>
  \<^verbatim>\<open>payments.TypePaymentResult\<close>: either \<^verbatim>\<open>PaymentResult\<close> with its \<^verbatim>\<open>updates\<close> or
  \<^verbatim>\<open>PaymentVerificationNeeded\<close> with its \<^verbatim>\<open>url\<close>.
\<close>

datatype 'u payment_result =
    PaymentResult 'u
  | PaymentVerificationNeeded string

definition sendPaymentForm ::
  "'u payment_result option \<Rightarrow> bool option \<times> ('u, 'w, 'd) effect list" where
  "sendPaymentForm result =
     (case result of
        None \<Rightarrow> (Some False, [])
      | Some (PaymentVerificationNeeded u) \<Rightarrow>
          (None, [SendApiUpdate \<lparr>atType = ''updatePaymentVerificationNeeded'', url = u\<rparr>])
      | Some (PaymentResult upd) \<Rightarrow> (Some True, [HandleGramJsUpdate upd]))"

definition sendStarPaymentForm ::
  "bool \<Rightarrow> 'u payment_result option \<Rightarrow> bool option \<times> ('u, 'w, 'd) effect list" where
  "sendStarPaymentForm DEBUG result =
     (case result of
        None \<Rightarrow> (Some False, [])
      | Some (PaymentVerificationNeeded u) \<Rightarrow>
          (None, if DEBUG
                 then [ConsoleWarn ''Unexpected PaymentVerificationNeeded in sendStarsForm'']
                 else [])
      | Some (PaymentResult upd) \<Rightarrow> (Some True, [HandleGramJsUpdate upd]))"

subsection \<open>getPaymentForm, getReceipt, fetchPremiumPromo\<close>

text \<open>
  Of \<^verbatim>\<open>payments.PaymentForm\<close> the function reads the optional \<^verbatim>\<open>photo\<close>; the whole
  object goes to the two builders.
\<close>

record ('w, 'x) payment_form =
  photo :: "'w option"
  formFields :: 'x

record ('a, 'b) payment_form_result =
  form :: 'a
  invoice :: 'b

definition getPaymentForm ::
  "(('w, 'x) payment_form \<Rightarrow> 'a) \<Rightarrow> (('w, 'x) payment_form \<Rightarrow> 'b)
     \<Rightarrow> ('w, 'x) payment_form option
     \<Rightarrow> ('a, 'b) payment_form_result option \<times> ('u, 'w, 'd) effect list" where
  "getPaymentForm buildApiPaymentForm buildApiInvoiceFromForm result =
     (case result of
        None \<Rightarrow> (None, [])
      | Some r \<Rightarrow>
          (Some \<lparr>form = buildApiPaymentForm r, invoice = buildApiInvoiceFromForm r\<rparr>,
           (case photo r of None \<Rightarrow> [] | Some ph \<Rightarrow> [AddWebDocumentToLocalDb ph])))"

record 'a receipt_result =
  receipt :: 'a

definition getReceipt ::
  "('r \<Rightarrow> 'a) \<Rightarrow> 'r option \<Rightarrow> 'a receipt_result option \<times> ('u, 'w, 'd) effect list" where
  "getReceipt buildApiReceipt result =
     (case result of
        None \<Rightarrow> (None, [])
      | Some r \<Rightarrow> (Some \<lparr>receipt = buildApiReceipt r\<rparr>, []))"

text \<open>
  \<^verbatim>\<open>TypeDocument\<close> is \<^verbatim>\<open>Document\<close> (with a big-integer \<^verbatim>\<open>id\<close>) or \<^verbatim>\<open>DocumentEmpty\<close>.
  \<^verbatim>\<open>video.id.toString()\<close> is the decimal numeral of the id.
\<close>

datatype 'x type_document =
    Document int 'x
  | DocumentEmpty int

fun digits :: "nat \<Rightarrow> string" where
  "digits n =
     (if n < 10 then [''0123456789'' ! n]
      else digits (n div 10) @ [''0123456789'' ! (n mod 10)])"

definition toString :: "int \<Rightarrow> string" where
  "toString i = (if i < 0 then CHR ''-'' # digits (nat (- i)) else digits (nat i))"

record ('x, 'y) premium_promo =
  videos :: "'x type_document list"
  promoFields :: 'y

record 'a promo_result =
  promo :: 'a

fun registerVideo :: "'x type_document \<Rightarrow> ('u, 'w, 'x type_document) effect list" where
  "registerVideo (Document i x) = [LocalDbDocumentsSet (toString i) (Document i x)]"
| "registerVideo (DocumentEmpty i) = []"

definition fetchPremiumPromo ::
  "(('x, 'y) premium_promo \<Rightarrow> 'a) \<Rightarrow> ('x, 'y) premium_promo option
     \<Rightarrow> 'a promo_result option \<times> ('u, 'w, 'x type_document) effect list" where
  "fetchPremiumPromo buildApiPremiumPromo result =
     (case result of
        None \<Rightarrow> (None, [])
      | Some r \<Rightarrow>
          (Some \<lparr>promo = buildApiPremiumPromo r\<rparr>, concat (map registerVideo (videos r))))"

subsection \<open>fetchTemporaryPaymentPassword\<close>

text \<open>
  \<^verbatim>\<open>getTemporaryPaymentPassword\<close> yields nothing, an object with an \<^verbatim>\<open>error\<close> field, or
  the temporary password with its expiry.
\<close>

datatype ('e, 'b) tmp_password =
    PasswordError 'e
  | TmpPassword 'b int

record 's password_value =
  val :: 's
  validUntil :: int

definition fetchTemporaryPaymentPassword ::
  "('b \<Rightarrow> 's) \<Rightarrow> ('e, 'b) tmp_password option
     \<Rightarrow> ('e + 's password_value) option \<times> ('u, 'w, 'd) effect list" where
  "fetchTemporaryPaymentPassword serializeBytes result =
     (case result of
        None \<Rightarrow> (None, [])
      | Some (PasswordError e) \<Rightarrow> (Some (Inl e), [])
      | Some (TmpPassword b t) \<Rightarrow>
          (Some (Inr \<lparr>val = serializeBytes b, validUntil = t\<rparr>), []))"

subsection \<open>Boosts\<close>

record 'm my_boosts =
  myBoosts :: "'m list"

record 'a boosts_result =
  boosts :: "'a list"

definition fetchMyBoosts ::
  "('m \<Rightarrow> 'a) \<Rightarrow> 'm my_boosts option
     \<Rightarrow> 'a boosts_result option \<times> ('u, 'w, 'd) effect list" where
  "fetchMyBoosts buildApiMyBoost result =
     (case result of
        None \<Rightarrow> (None, [])
      | Some r \<Rightarrow> (Some \<lparr>boosts = map buildApiMyBoost (myBoosts r)\<rparr>, []))"

definition applyBoost ::
  "('m \<Rightarrow> 'a) \<Rightarrow> 'm my_boosts option
     \<Rightarrow> 'a boosts_result option \<times> ('u, 'w, 'd) effect list" where
  "applyBoost buildApiMyBoost result =
     (case result of
        None \<Rightarrow> (None, [])
      | Some r \<Rightarrow> (Some \<lparr>boosts = map buildApiMyBoost (myBoosts r)\<rparr>, []))"

definition fetchBoostStatus ::
  "('r \<Rightarrow> 'a) \<Rightarrow> 'r option \<Rightarrow> 'a option \<times> ('u, 'w, 'd) effect list" where
  "fetchBoostStatus buildApiBoostsStatus result =
     (case result of
        None \<Rightarrow> (None, [])
      | Some r \<Rightarrow> (Some (buildApiBoostsStatus r), []))"

record 'm boosts_list =
  rawCount :: int
  rawBoosts :: "'m list"
  rawNextOffset :: "string option"

record 'a boost_list_result =
  count :: int
  boostList :: "'a list"
  nextOffset :: "string option"

definition fetchBoostList ::
  "('m \<Rightarrow> 'a) \<Rightarrow> 'm boosts_list option
     \<Rightarrow> 'a boost_list_result option \<times> ('u, 'w, 'd) effect list" where
  "fetchBoostList buildApiBoost result =
     (case result of
        None \<Rightarrow> (None, [])
      | Some r \<Rightarrow>
          (Some \<lparr>count = rawCount r, boostList = map buildApiBoost (rawBoosts r),
                 nextOffset = rawNextOffset r\<rparr>, []))"

subsection \<open>Giveaways and gift codes\<close>

definition fetchGiveawayInfo ::
  "('r \<Rightarrow> 'a) \<Rightarrow> 'r option \<Rightarrow> 'a option \<times> ('u, 'w, 'd) effect list" where
  "fetchGiveawayInfo buildApiGiveawayInfo result =
     (case result of
        None \<Rightarrow> (None, [])
      | Some r \<Rightarrow> (Some (buildApiGiveawayInfo r), []))"

record 'a code_result =
  code :: 'a

definition checkGiftCode ::
  "('r \<Rightarrow> 'a) \<Rightarrow> 'r option \<Rightarrow> 'a code_result option \<times> ('u, 'w, 'd) effect list" where
  "checkGiftCode buildApiCheckedGiftCode result =
     (case result of
        None \<Rightarrow> (None, [])
      | Some r \<Rightarrow> (Some \<lparr>code = buildApiCheckedGiftCode r\<rparr>, []))"

text \<open>
  \<^verbatim>\<open>applyGiftCode\<close> and \<^verbatim>\<open>launchPrepaidGiveaway\<close> return what \<^verbatim>\<open>invokeRequest\<close> gives
  them, unchanged.
\<close>

definition applyGiftCode :: "'r option \<Rightarrow> 'r option \<times> ('u, 'w, 'd) effect list" where
  "applyGiftCode result = (result, [])"

definition launchPrepaidGiveaway :: "'r option \<Rightarrow> 'r option \<times> ('u, 'w, 'd) effect list" where
  "launchPrepaidGiveaway result = (result, [])"

definition getPremiumGiftCodeOptions ::
  "('r \<Rightarrow> 'a) \<Rightarrow> 'r list option \<Rightarrow> 'a list option \<times> ('u, 'w, 'd) effect list" where
  "getPremiumGiftCodeOptions buildApiPremiumGiftCodeOption result =
     (case result of
        None \<Rightarrow> (None, [])
      | Some r \<Rightarrow> (Some (map buildApiPremiumGiftCodeOption r), []))"

definition getStarsGiftOptions ::
  "('r \<Rightarrow> 'a) \<Rightarrow> 'r list option \<Rightarrow> 'a list option \<times> ('u, 'w, 'd) effect list" where
  "getStarsGiftOptions buildApiStarsGiftOptions result =
     (case result of
        None \<Rightarrow> (None, [])
      | Some r \<Rightarrow> (Some (map buildApiStarsGiftOptions r), []))"

definition fetchStarsGiveawayOptions ::
  "('r \<Rightarrow> 'a) \<Rightarrow> 'r list option \<Rightarrow> 'a list option \<times> ('u, 'w, 'd) effect list" where
  "fetchStarsGiveawayOptions buildApiStarsGiveawayOptions result =
     (case result of
        None \<Rightarrow> (None, [])
      | Some r \<Rightarrow> (Some (map buildApiStarsGiveawayOptions r), []))"

subsection \<open>Stars\<close>

text \<open>
  \<^verbatim>\<open>payments.StarsStatus\<close>: optional \<^verbatim>\<open>nextOffset\<close> and \<^verbatim>\<open>history\<close>, and a big-integer
  \<^verbatim>\<open>balance\<close> that \<^verbatim>\<open>toJSNumber\<close> turns into a platform number.
\<close>

record 't stars_status =
  rawOffset :: "string option"
  rawHistory :: "'t list option"
  rawBalance :: int

record ('a, 'n) stars_result =
  starsNextOffset :: "string option"
  history :: "'a list option"
  balance :: 'n

definition fetchStarsStatus ::
  "('t \<Rightarrow> 'a) \<Rightarrow> (int \<Rightarrow> 'n) \<Rightarrow> 't stars_status option
     \<Rightarrow> ('a, 'n) stars_result option \<times> ('u, 'w, 'd) effect list" where
  "fetchStarsStatus buildApiStarsTransaction toJSNumber result =
     (case result of
        None \<Rightarrow> (None, [])
      | Some r \<Rightarrow>
          (Some \<lparr>starsNextOffset = rawOffset r,
                 history = map_option (map buildApiStarsTransaction) (rawHistory r),
                 balance = toJSNumber (rawBalance r)\<rparr>, []))"

definition fetchStarsTransactions ::
  "('t \<Rightarrow> 'a) \<Rightarrow> (int \<Rightarrow> 'n) \<Rightarrow> 't stars_status option
     \<Rightarrow> ('a, 'n) stars_result option \<times> ('u, 'w, 'd) effect list" where
  "fetchStarsTransactions buildApiStarsTransaction toJSNumber result =
     (case result of
        None \<Rightarrow> (None, [])
      | Some r \<Rightarrow>
          (Some \<lparr>starsNextOffset = rawOffset r,
                 history = map_option (map buildApiStarsTransaction) (rawHistory r),
                 balance = toJSNumber (rawBalance r)\<rparr>, []))"

record 'a transaction_result =
  transaction :: 'a

definition fetchStarsTransactionById ::
  "('t \<Rightarrow> 'a) \<Rightarrow> 't stars_status option
     \<Rightarrow> 'a transaction_result option \<times> ('u, 'w, 'd) effect list" where
  "fetchStarsTransactionById buildApiStarsTransaction result =
     (case result of
        None \<Rightarrow> (None, [])
      | Some r \<Rightarrow>
          (case rawHistory r of
             None \<Rightarrow> (None, [])
           | Some [] \<Rightarrow> (None, [])
           | Some (t # _) \<Rightarrow> (Some \<lparr>transaction = buildApiStarsTransaction t\<rparr>, [])))"

definition fetchStarsTopupOptions ::
  "('r \<Rightarrow> 'a) \<Rightarrow> 'r list option \<Rightarrow> 'a list option \<times> ('u, 'w, 'd) effect list" where
  "fetchStarsTopupOptions buildApiStarTopupOption result =
     (case result of
        None \<Rightarrow> (None, [])
      | Some r \<Rightarrow> (Some (map buildApiStarTopupOption r), []))"

section \<open>The close-friends picker\<close>

text \<open>
  Source: \<^verbatim>\<open>src/components/story/privacy/CloseFriends.tsx\<close>. The component is modelled
  as a state record (its three \<^verbatim>\<open>useState\<close> cells and the reference cell kept by
  \<^verbatim>\<open>useEffectWithPrevDeps\<close>), a props record, and one function per event: a render with
  given props and the three handlers. \<^verbatim>\<open>useMemo\<close> values are functions of the variables
  in their dependency lists, which name every variable the bodies read.
\<close>

subsection \<open>Helpers that live outside the two files\<close>

text \<open>
  Modelled from the spec: \<^verbatim>\<open>unique\<close> (\<^verbatim>\<open>util/iteratees\<close>) is not among the source files.
  The spec has the list "de-duplicated preserving first occurrence".
\<close>

fun unique :: "'a list \<Rightarrow> 'a list" where
  "unique [] = []"
| "unique (x # xs) = x # unique (filter (\<lambda>y. y \<noteq> x) xs)"

text \<open>Of \<^verbatim>\<open>ApiUser\<close> the component reads the optional flag \<^verbatim>\<open>isCloseFriend\<close>.\<close>

record ApiUser =
  isCloseFriend :: "bool option"
  firstName :: string

text \<open>
  Modelled from the spec: \<^verbatim>\<open>filterUsersByName\<close> (\<^verbatim>\<open>global/helpers\<close>) is not among the
  source files. The spec has the search text "intersected against names", and with no
  filter every contact is listed. What it means for a name to match is left open: the
  test \<open>matches\<close> is a parameter, given the user table, the search text and the ID.
\<close>

definition filterUsersByName ::
  "((string \<rightharpoonup> ApiUser) \<Rightarrow> string \<Rightarrow> string \<Rightarrow> bool)
     \<Rightarrow> string list \<Rightarrow> (string \<rightharpoonup> ApiUser) \<Rightarrow> string \<Rightarrow> string list" where
  "filterUsersByName matches userIds users query =
     (if query = [] then userIds else filter (matches users query) userIds)"

text \<open>A concrete name test for examples: the search text occurs in the first name.\<close>

fun occursIn :: "string \<Rightarrow> string \<Rightarrow> bool" where
  "occursIn q [] = (q = [])"
| "occursIn q (c # cs) = (take (length q) (c # cs) = q \<or> occursIn q cs)"

definition firstNameMatches :: "(string \<rightharpoonup> ApiUser) \<Rightarrow> string \<Rightarrow> string \<Rightarrow> bool" where
  "firstNameMatches users query uid =
     (case users uid of None \<Rightarrow> False | Some u \<Rightarrow> occursIn query (firstName u))"

subsection \<open>Props and state\<close>

text \<open>JavaScript truthiness of an optional boolean.\<close>

fun truthy :: "bool option \<Rightarrow> bool" where
  "truthy None = False"
| "truthy (Some b) = b"

record props =
  isActive :: "bool option"
  currentUserId :: string
  usersById :: "string \<rightharpoonup> ApiUser"
  contactListIds :: "string list option"

text \<open>
  \<open>prevDeps\<close> is the reference cell of \<^verbatim>\<open>useEffectWithPrevDeps\<close>: the dependency values
  \<^verbatim>\<open>[isActive, closeFriendIds]\<close> of the last run of the effect, \<open>None\<close> before the first.
\<close>

record state =
  searchQuery :: string
  isSubmitShown :: bool
  newSelectedContactIds :: "string list"
  prevDeps :: "(bool option \<times> string list) option"

definition initialState :: state where
  "initialState =
     \<lparr>searchQuery = [], isSubmitShown = False, newSelectedContactIds = [], prevDeps = None\<rparr>"

definition contactList :: "props \<Rightarrow> string list" where
  "contactList p = (case contactListIds p of None \<Rightarrow> [] | Some xs \<Rightarrow> xs)"

subsection \<open>Derived values\<close>

definition closeFriendIds :: "props \<Rightarrow> string list" where
  "closeFriendIds p =
     filter (\<lambda>userId. case usersById p userId of
                         None \<Rightarrow> False
                       | Some u \<Rightarrow> truthy (isCloseFriend u))
            (contactList p)"

definition displayedIds ::
  "((string \<rightharpoonup> ApiUser) \<Rightarrow> string \<Rightarrow> string \<Rightarrow> bool) \<Rightarrow> props \<Rightarrow> state \<Rightarrow> string list" where
  "displayedIds matches p s =
     (let contactIds = filter (\<lambda>i. i \<noteq> currentUserId p) (contactList p)
      in unique (filterUsersByName matches (closeFriendIds p @ contactIds)
                   (usersById p) (searchQuery s)))"

subsection \<open>The activation effect\<close>

text \<open>
  Modelled from the spec: \<^verbatim>\<open>useEffectWithPrevDeps\<close> (\<^verbatim>\<open>hooks\<close>) is not among the source
  files. The spec calls it "a framework hook comparing previous vs. current props": after
  a render whose dependency values differ from the remembered ones (or the first render)
  it runs the callback with the remembered values and remembers the new ones. Before the
  first run the remembered \<^verbatim>\<open>prevIsActive\<close> is \<^verbatim>\<open>undefined\<close>.
\<close>

definition prevIsActive :: "state \<Rightarrow> bool option" where
  "prevIsActive s = (case prevDeps s of None \<Rightarrow> None | Some d \<Rightarrow> fst d)"

text \<open>The callback of the component, lines 48 to 53.\<close>

definition activationCallback :: "bool option \<Rightarrow> props \<Rightarrow> state \<Rightarrow> state" where
  "activationCallback prev p s =
     (if \<not> truthy prev \<and> truthy (isActive p)
      then s\<lparr>isSubmitShown := False, newSelectedContactIds := closeFriendIds p\<rparr>
      else s)"

definition render :: "props \<Rightarrow> state \<Rightarrow> state" where
  "render p s =
     (let deps = (isActive p, closeFriendIds p)
      in if prevDeps s = Some deps then s
         else (activationCallback (prevIsActive s) p s)\<lparr>prevDeps := Some deps\<rparr>)"

text \<open>The render is an activation: the flag was falsy at the last render and is true now.\<close>

definition risingEdge :: "state \<Rightarrow> props \<Rightarrow> bool" where
  "risingEdge s p = (\<not> truthy (prevIsActive s) \<and> truthy (isActive p))"

subsection \<open>Handlers\<close>

definition setSearchQuery :: "string \<Rightarrow> state \<Rightarrow> state" where
  "setSearchQuery text s = s\<lparr>searchQuery := text\<rparr>"

definition handleSelectedContactIdsChange :: "string list \<Rightarrow> state \<Rightarrow> state" where
  "handleSelectedContactIdsChange v s = s\<lparr>newSelectedContactIds := v, isSubmitShown := True\<rparr>"

text \<open>What \<^verbatim>\<open>handleSubmit\<close> calls, in order; it changes no state cell.\<close>

datatype ui_call = SaveCloseFriends "string list" | OnClose

definition handleSubmit :: "state \<Rightarrow> ui_call list" where
  "handleSubmit s = [SaveCloseFriends (newSelectedContactIds s), OnClose]"

subsection \<open>Example inputs\<close>

text \<open>Contacts C, A, D, B in list order; A and B are close friends; the acting user is apart.\<close>

definition exUsers :: "string \<rightharpoonup> ApiUser" where
  "exUsers =
     [''A'' \<mapsto> \<lparr>isCloseFriend = Some True, firstName = ''alice''\<rparr>,
      ''B'' \<mapsto> \<lparr>isCloseFriend = Some True, firstName = ''bella''\<rparr>,
      ''C'' \<mapsto> \<lparr>isCloseFriend = None, firstName = ''carol''\<rparr>,
      ''D'' \<mapsto> \<lparr>isCloseFriend = Some False, firstName = ''dave''\<rparr>]"

definition exProps :: props where
  "exProps = \<lparr>isActive = Some True, currentUserId = ''me'', usersById = exUsers,
              contactListIds = Some [''C'', ''A'', ''D'', ''B'']\<rparr>"

text \<open>The same container, inactive.\<close>

definition inactiveProps :: props where
  "inactiveProps = exProps\<lparr>isActive := Some False\<rparr>"

text \<open>The same container, still active, after C has become a close friend as well.\<close>

definition moreFriendsProps :: props where
  "moreFriendsProps =
     exProps\<lparr>usersById := exUsers(''C'' \<mapsto> \<lparr>isCloseFriend = Some True, firstName = ''carol''\<rparr>)\<rparr>"

text \<open>The state after the first active render and one edit of the selection.\<close>

definition editedState :: state where
  "editedState = handleSelectedContactIdsChange [''A'', ''C''] (render exProps initialState)"

text \<open>
  A contact list that holds the acting user, who carries the close-friend flag, and one
  more close friend.
\<close>

definition selfUsers :: "string \<rightharpoonup> ApiUser" where
  "selfUsers =
     [''me'' \<mapsto> \<lparr>isCloseFriend = Some True, firstName = ''bob''\<rparr>,
      ''A'' \<mapsto> \<lparr>isCloseFriend = Some True, firstName = ''alice''\<rparr>]"

definition selfProps :: props where
  "selfProps = \<lparr>isActive = Some True, currentUserId = ''me'', usersById = selfUsers,
                contactListIds = Some [''me'', ''A'']\<rparr>"

section \<open>Properties of the result normalisers\<close>

text \<open>
  C1. When \<^verbatim>\<open>sendPaymentForm\<close> receives \<^verbatim>\<open>PaymentVerificationNeeded\<close>, it returns
  \<^verbatim>\<open>undefined\<close> and its only effect is one notification of kind
  \<^verbatim>\<open>updatePaymentVerificationNeeded\<close> that carries the URL of the response unchanged;
  no update is handled on that branch.
\<close>

theorem sendPaymentForm_verification_needed:
  "sendPaymentForm (Some (PaymentVerificationNeeded u)) =
     (None, [SendApiUpdate \<lparr>atType = ''updatePaymentVerificationNeeded'', url = u\<rparr>])
   \<and> filter isUpdateHandling (snd (sendPaymentForm (Some (PaymentVerificationNeeded u)))) = []"
  by (simp add: sendPaymentForm_def)

text \<open>
  On an absent result the two payment submissions return \<^verbatim>\<open>false\<close>, not \<^verbatim>\<open>undefined\<close>
  (lines 109 and 137).
\<close>

theorem absent_submission_counterexample:
  "fst (sendPaymentForm None :: bool option \<times> (unit, unit, unit) effect list) = Some False
   \<and> fst (sendStarPaymentForm True None :: bool option \<times> (unit, unit, unit) effect list)
       = Some False"
  by (simp add: sendPaymentForm_def sendStarPaymentForm_def)

text \<open>
  C2, as amended. On an absent result every function of the module performs no effect at
  all (no notification, no cache registration) and returns \<^verbatim>\<open>undefined\<close>, except
  \<^verbatim>\<open>sendPaymentForm\<close> and \<^verbatim>\<open>sendStarPaymentForm\<close>, which return \<^verbatim>\<open>false\<close>.
\<close>

theorem absent_result:
  "validateRequestedInfo buildShippingOptions None = (None, [])
   \<and> sendPaymentForm None = (Some False, [])
   \<and> sendStarPaymentForm DEBUG None = (Some False, [])
   \<and> getPaymentForm buildApiPaymentForm buildApiInvoiceFromForm None = (None, [])
   \<and> getReceipt buildApiReceipt None = (None, [])
   \<and> fetchPremiumPromo buildApiPremiumPromo None = (None, [])
   \<and> fetchTemporaryPaymentPassword serializeBytes None = (None, [])
   \<and> fetchMyBoosts buildApiMyBoost None = (None, [])
   \<and> applyBoost buildApiMyBoost' None = (None, [])
   \<and> fetchBoostStatus buildApiBoostsStatus None = (None, [])
   \<and> fetchBoostList buildApiBoost None = (None, [])
   \<and> fetchGiveawayInfo buildApiGiveawayInfo None = (None, [])
   \<and> checkGiftCode buildApiCheckedGiftCode None = (None, [])
   \<and> applyGiftCode None = (None, [])
   \<and> launchPrepaidGiveaway None = (None, [])
   \<and> getPremiumGiftCodeOptions buildApiPremiumGiftCodeOption None = (None, [])
   \<and> getStarsGiftOptions buildApiStarsGiftOptions None = (None, [])
   \<and> fetchStarsGiveawayOptions buildApiStarsGiveawayOptions None = (None, [])
   \<and> fetchStarsStatus buildApiStarsTransaction toJSNumber None = (None, [])
   \<and> fetchStarsTransactions buildApiStarsTransaction' toJSNumber' None = (None, [])
   \<and> fetchStarsTransactionById buildApiStarsTransaction'' None = (None, [])
   \<and> fetchStarsTopupOptions buildApiStarTopupOption None = (None, [])"
  by (simp add: validateRequestedInfo_def sendPaymentForm_def sendStarPaymentForm_def
      getPaymentForm_def getReceipt_def fetchPremiumPromo_def fetchTemporaryPaymentPassword_def
      fetchMyBoosts_def applyBoost_def fetchBoostStatus_def fetchBoostList_def
      fetchGiveawayInfo_def checkGiftCode_def applyGiftCode_def launchPrepaidGiveaway_def
      getPremiumGiftCodeOptions_def getStarsGiftOptions_def fetchStarsGiveawayOptions_def
      fetchStarsStatus_def fetchStarsTransactions_def fetchStarsTransactionById_def
      fetchStarsTopupOptions_def)

text \<open>
  With \<^verbatim>\<open>DEBUG\<close> on, \<^verbatim>\<open>sendStarPaymentForm\<close> answers \<^verbatim>\<open>PaymentVerificationNeeded\<close> with
  the warning and \<^verbatim>\<open>undefined\<close>: no update is handled and no boolean is returned.
\<close>

theorem star_verification_counterexample:
  "(sendStarPaymentForm True (Some (PaymentVerificationNeeded ''https://pay.example/3ds''))
      :: bool option \<times> (unit, unit, unit) effect list)
   = (None, [ConsoleWarn ''Unexpected PaymentVerificationNeeded in sendStarsForm''])"
  by (simp add: sendStarPaymentForm_def)

text \<open>
  C3, as amended. When \<^verbatim>\<open>sendStarPaymentForm\<close> receives \<^verbatim>\<open>PaymentVerificationNeeded\<close>, it
  records the condition with a console warning (when \<^verbatim>\<open>DEBUG\<close> is on) and returns
  \<^verbatim>\<open>undefined\<close> at once: it handles no update, publishes no notification and raises no
  error.
\<close>

theorem sendStarPaymentForm_verification_needed:
  "sendStarPaymentForm DEBUG (Some (PaymentVerificationNeeded u)) =
     (None, if DEBUG then [ConsoleWarn ''Unexpected PaymentVerificationNeeded in sendStarsForm'']
            else [])
   \<and> filter isUpdateHandling
        (snd (sendStarPaymentForm DEBUG (Some (PaymentVerificationNeeded u)))) = []
   \<and> filter isNotification
        (snd (sendStarPaymentForm DEBUG (Some (PaymentVerificationNeeded u)))) = []"
  by (simp add: sendStarPaymentForm_def)

text \<open>
  C7. When the response of \<^verbatim>\<open>sendPaymentForm\<close> or \<^verbatim>\<open>sendStarPaymentForm\<close> is present and
  is not \<^verbatim>\<open>PaymentVerificationNeeded\<close> (so it is \<^verbatim>\<open>PaymentResult\<close>), the function hands the
  updates to \<^verbatim>\<open>handleGramJsUpdate\<close>, returns the boolean \<^verbatim>\<open>true\<close> and publishes no
  notification.
\<close>

theorem payment_completed:
  "sendPaymentForm (Some (PaymentResult upd)) = (Some True, [HandleGramJsUpdate upd])
   \<and> sendStarPaymentForm DEBUG (Some (PaymentResult upd)) = (Some True, [HandleGramJsUpdate upd])
   \<and> filter isNotification (snd (sendPaymentForm (Some (PaymentResult upd)))) = []
   \<and> filter isNotification (snd (sendStarPaymentForm DEBUG (Some (PaymentResult upd)))) = []"
  by (simp add: sendPaymentForm_def sendStarPaymentForm_def)

text \<open>
  C10. \<^verbatim>\<open>validateRequestedInfo\<close> returns \<^verbatim>\<open>undefined\<close> when the response is absent, and
  also when a response is present whose \<^verbatim>\<open>id\<close> is missing or the empty string; with a
  non-empty \<^verbatim>\<open>id\<close> it returns the object of that \<^verbatim>\<open>id\<close> and the built shipping options.
  The four cases cover every input.
\<close>

theorem validateRequestedInfo_cases:
  "validateRequestedInfo build None = (None, [])
   \<and> validateRequestedInfo build (Some (ValidatedRequestedInfo None so)) = (None, [])
   \<and> validateRequestedInfo build (Some (ValidatedRequestedInfo (Some []) so)) = (None, [])
   \<and> (i \<noteq> [] \<longrightarrow>
        validateRequestedInfo build (Some (ValidatedRequestedInfo (Some i) so))
          = (Some \<lparr>id_field = i, shippingOptions = build so\<rparr>, []))"
  by (simp add: validateRequestedInfo_def)

theorem validateRequestedInfo_cases_witness:
  "''info1'' \<noteq> []
   \<and> (validateRequestedInfo rev (Some (ValidatedRequestedInfo (Some ''info1'') [''dhl'', ''ups'']))
        :: string list requested_info option \<times> (unit, unit, unit) effect list)
     = (Some \<lparr>id_field = ''info1'', shippingOptions = [''ups'', ''dhl'']\<rparr>, [])"
proof -
  have "''info1'' \<noteq> [] \<longrightarrow>
      (validateRequestedInfo rev (Some (ValidatedRequestedInfo (Some ''info1'') [''dhl'', ''ups'']))
        :: string list requested_info option \<times> (unit, unit, unit) effect list)
      = (Some \<lparr>id_field = ''info1'', shippingOptions = rev [''dhl'', ''ups'']\<rparr>, [])"
    by (rule validateRequestedInfo_cases [THEN conjunct2, THEN conjunct2, THEN conjunct2])
  then show ?thesis by simp
qed

section \<open>Properties of the close-friends picker\<close>

subsection \<open>De-duplication\<close>

lemma set_unique: "set (unique xs) = set xs"
  by (induction xs rule: unique.induct) auto

lemma distinct_unique: "distinct (unique xs)"
  by (induction xs rule: unique.induct) (auto simp: set_unique)

lemma unique_filter: "unique (filter P xs) = filter P (unique xs)"
proof (induction xs rule: unique.induct)
  case 1
  show ?case by simp
next
  case (2 x xs)
  have comm: "filter (\<lambda>y. y \<noteq> x) (filter P xs) = filter P (filter (\<lambda>y. y \<noteq> x) xs)"
    by (simp add: conj_commute)
  show ?case
  proof (cases "P x")
    case True
    then show ?thesis using 2 comm by simp
  next
    case False
    have "filter P (filter (\<lambda>y. y \<noteq> x) xs) = filter P xs"
      using False by (auto intro: filter_cong)
    then show ?thesis using False 2 by simp
  qed
qed

lemma unique_append:
  "unique (xs @ ys) = unique xs @ filter (\<lambda>y. y \<notin> set xs) (unique ys)"
proof (induction xs arbitrary: ys rule: unique.induct)
  case 1
  show ?case by simp
next
  case (2 x xs)
  let ?nx = "\<lambda>y. y \<noteq> x"
  have "unique ((x # xs) @ ys) = x # unique (filter ?nx xs @ filter ?nx ys)"
    by simp
  also have "\<dots> = x # unique (filter ?nx xs)
        @ filter (\<lambda>y. y \<notin> set (filter ?nx xs)) (unique (filter ?nx ys))"
    using 2 by simp
  also have "filter (\<lambda>y. y \<notin> set (filter ?nx xs)) (unique (filter ?nx ys))
        = filter (\<lambda>y. y \<notin> set (x # xs)) (unique ys)"
    by (auto simp: unique_filter intro: filter_cong)
  finally show ?case by simp
qed

subsection \<open>Filtering\<close>

lemma filterUsersByName_append:
  "filterUsersByName m (xs @ ys) u q = filterUsersByName m xs u q @ filterUsersByName m ys u q"
  by (simp add: filterUsersByName_def)

lemma set_filterUsersByName:
  "set (filterUsersByName m xs u q) = {i \<in> set xs. q = [] \<or> m u q i}"
  by (auto simp: filterUsersByName_def)

subsection \<open>The examples, evaluated\<close>

lemma closeFriendIds_exProps: "closeFriendIds exProps = [''A'', ''B'']"
  by (simp add: closeFriendIds_def contactList_def exProps_def exUsers_def)

lemma render_exProps_initialState:
  "render exProps initialState =
     \<lparr>searchQuery = [], isSubmitShown = False, newSelectedContactIds = [''A'', ''B''],
      prevDeps = Some (Some True, [''A'', ''B''])\<rparr>"
  by (simp add: render_def closeFriendIds_exProps prevIsActive_def activationCallback_def
      initialState_def) (simp add: exProps_def)

lemma editedState_eq:
  "editedState =
     \<lparr>searchQuery = [], isSubmitShown = True, newSelectedContactIds = [''A'', ''C''],
      prevDeps = Some (Some True, [''A'', ''B''])\<rparr>"
  by (simp add: editedState_def render_exProps_initialState handleSelectedContactIdsChange_def)

subsection \<open>The displayed list\<close>

lemma displayedIds_split:
  "displayedIds m p s =
     unique (filterUsersByName m (closeFriendIds p) (usersById p) (searchQuery s))
     @ filter (\<lambda>i. i \<notin> set (closeFriendIds p))
         (unique (filterUsersByName m (filter (\<lambda>i. i \<noteq> currentUserId p) (contactList p))
                    (usersById p) (searchQuery s)))"
proof -
  let ?cf = "closeFriendIds p"
  let ?k = "\<lambda>xs. filterUsersByName m xs (usersById p) (searchQuery s)"
  let ?cs = "filter (\<lambda>i. i \<noteq> currentUserId p) (contactList p)"
  have "displayedIds m p s = unique (?k ?cf) @ filter (\<lambda>i. i \<notin> set (?k ?cf)) (unique (?k ?cs))"
    by (simp add: displayedIds_def filterUsersByName_append unique_append)
  moreover have "filter (\<lambda>i. i \<notin> set (?k ?cf)) (unique (?k ?cs))
      = filter (\<lambda>i. i \<notin> set ?cf) (unique (?k ?cs))"
    by (rule filter_cong) (auto simp: set_unique set_filterUsersByName)
  ultimately show ?thesis by simp
qed

text \<open>
  With the search text \<^verbatim>\<open>bob\<close>, the close friend A (alice) is not displayed, and the
  acting user, who is in the baseline, is.
\<close>

theorem baseline_dropped_counterexample:
  "''A'' \<in> set (closeFriendIds selfProps)
   \<and> ''A'' \<notin> set (displayedIds firstNameMatches selfProps (setSearchQuery ''bob'' initialState))
   \<and> currentUserId selfProps
       \<in> set (displayedIds firstNameMatches selfProps (setSearchQuery ''bob'' initialState))"
  by (simp add: displayedIds_def closeFriendIds_def contactList_def selfProps_def selfUsers_def
      filterUsersByName_def initialState_def setSearchQuery_def firstNameMatches_def)

text \<open>
  C4, as amended. When the acting user is not in the baseline, \<open>displayedIds\<close> has no
  duplicates, never holds the acting user's ID, and holds exactly the baseline IDs and the
  other contacts' IDs that pass the filter: the filter applies to the baseline as well, so
  a close friend whose name does not match a non-empty search text is not displayed. With
  an empty search text every baseline ID is displayed.
\<close>

theorem displayedIds_contents:
  assumes "currentUserId p \<notin> set (closeFriendIds p)"
  shows "distinct (displayedIds m p s)
    \<and> set (displayedIds m p s) =
        {i \<in> set (closeFriendIds p) \<union> set (contactList p).
           i \<noteq> currentUserId p \<and> (searchQuery s = [] \<or> m (usersById p) (searchQuery s) i)}
    \<and> currentUserId p \<notin> set (displayedIds m p s)
    \<and> (searchQuery s = [] \<longrightarrow> set (closeFriendIds p) \<subseteq> set (displayedIds m p s))"
proof -
  have s: "set (displayedIds m p s) =
        {i \<in> set (closeFriendIds p) \<union> {i \<in> set (contactList p). i \<noteq> currentUserId p}.
           searchQuery s = [] \<or> m (usersById p) (searchQuery s) i}"
    by (auto simp: displayedIds_def set_unique set_filterUsersByName)
  have d: "distinct (displayedIds m p s)"
    by (simp add: displayedIds_def distinct_unique)
  from s d assms show ?thesis by auto
qed

theorem displayedIds_contents_witness:
  "currentUserId exProps \<notin> set (closeFriendIds exProps)
   \<and> distinct (displayedIds firstNameMatches exProps (setSearchQuery ''ar'' initialState))
   \<and> currentUserId exProps
       \<notin> set (displayedIds firstNameMatches exProps (setSearchQuery ''ar'' initialState))
   \<and> set (closeFriendIds exProps) \<subseteq> set (displayedIds firstNameMatches exProps initialState)"
proof -
  have h: "currentUserId exProps \<notin> set (closeFriendIds exProps)"
    by (simp add: closeFriendIds_exProps) (simp add: exProps_def)
  have q: "searchQuery initialState = []"
    by (simp add: initialState_def)
  from displayedIds_contents [OF h, of firstNameMatches "setSearchQuery ''ar'' initialState"]
       displayedIds_contents [OF h, of firstNameMatches initialState] q h
  show ?thesis by blast
qed

text \<open>
  With the search text \<^verbatim>\<open>bella\<close> only B is displayed, while the baseline is A, B: the
  baseline is not the front of the displayed list.
\<close>

theorem baseline_filtered_counterexample:
  "closeFriendIds exProps = [''A'', ''B'']
   \<and> displayedIds firstNameMatches exProps (setSearchQuery ''bella'' initialState) = [''B'']
   \<and> take (length (closeFriendIds exProps))
         (displayedIds firstNameMatches exProps (setSearchQuery ''bella'' initialState))
       \<noteq> closeFriendIds exProps"
  by (simp add: displayedIds_def closeFriendIds_def contactList_def exProps_def exUsers_def
      filterUsersByName_def initialState_def setSearchQuery_def firstNameMatches_def)

text \<open>
  C6, as amended. \<open>displayedIds\<close> is the baseline IDs that pass the filter, in baseline
  order and each once, followed by the other filter-matched contact IDs in contact-list
  order, each once and none of them from the baseline. With an empty search text these
  are all the baseline IDs, followed by the other contacts. With baseline A, B, contact
  list C, A, D, B, the acting user apart and an empty search text, it is A, B, C, D.
\<close>

theorem displayedIds_order:
  "displayedIds m p s =
     unique (filterUsersByName m (closeFriendIds p) (usersById p) (searchQuery s))
     @ filter (\<lambda>i. i \<notin> set (closeFriendIds p))
         (unique (filterUsersByName m (filter (\<lambda>i. i \<noteq> currentUserId p) (contactList p))
                    (usersById p) (searchQuery s)))
   \<and> (searchQuery s = [] \<longrightarrow>
        displayedIds m p s =
          unique (closeFriendIds p)
          @ filter (\<lambda>i. i \<notin> set (closeFriendIds p))
              (unique (filter (\<lambda>i. i \<noteq> currentUserId p) (contactList p))))
   \<and> (distinct [A, B, C, D] \<and> currentUserId p \<notin> {A, B, C, D}
        \<and> contactListIds p = Some [C, A, D, B] \<and> closeFriendIds p = [A, B]
        \<and> searchQuery s = []
      \<longrightarrow> displayedIds m p s = [A, B, C, D])"
proof (intro conjI impI)
  assume "distinct [A, B, C, D] \<and> currentUserId p \<notin> {A, B, C, D}
        \<and> contactListIds p = Some [C, A, D, B] \<and> closeFriendIds p = [A, B]
        \<and> searchQuery s = []"
  then show "displayedIds m p s = [A, B, C, D]"
    by (auto simp: displayedIds_def contactList_def filterUsersByName_def)
next
  assume "searchQuery s = []"
  then show "displayedIds m p s =
          unique (closeFriendIds p)
          @ filter (\<lambda>i. i \<notin> set (closeFriendIds p))
              (unique (filter (\<lambda>i. i \<noteq> currentUserId p) (contactList p)))"
    by (simp add: displayedIds_split filterUsersByName_def)
qed (rule displayedIds_split)

theorem displayedIds_order_witness:
  "distinct [''A'', ''B'', ''C'', ''D''] \<and> currentUserId exProps \<notin> {''A'', ''B'', ''C'', ''D''}
     \<and> contactListIds exProps = Some [''C'', ''A'', ''D'', ''B'']
     \<and> closeFriendIds exProps = [''A'', ''B''] \<and> searchQuery initialState = []
     \<and> displayedIds firstNameMatches exProps initialState = [''A'', ''B'', ''C'', ''D'']"
proof -
  have h: "distinct [''A'', ''B'', ''C'', ''D''] \<and> currentUserId exProps \<notin> {''A'', ''B'', ''C'', ''D''}
     \<and> contactListIds exProps = Some [''C'', ''A'', ''D'', ''B'']
     \<and> closeFriendIds exProps = [''A'', ''B''] \<and> searchQuery initialState = []"
    using closeFriendIds_exProps by (simp add: exProps_def initialState_def)
  from displayedIds_order [of firstNameMatches exProps initialState "''A''" "''B''" "''C''" "''D''"] h
  show ?thesis by blast
qed

subsection \<open>Activation\<close>

lemma render_not_rising:
  "\<not> risingEdge s p \<Longrightarrow>
     newSelectedContactIds (render p s) = newSelectedContactIds s
     \<and> isSubmitShown (render p s) = isSubmitShown s
     \<and> searchQuery (render p s) = searchQuery s"
  by (auto simp: render_def risingEdge_def activationCallback_def Let_def)

lemma render_rising:
  "risingEdge s p \<Longrightarrow>
     newSelectedContactIds (render p s) = closeFriendIds p \<and> \<not> isSubmitShown (render p s)"
  by (auto simp: render_def risingEdge_def activationCallback_def Let_def prevIsActive_def)

lemma prevIsActive_render: "prevIsActive (render p s) = isActive p"
  by (auto simp: render_def prevIsActive_def Let_def)

lemma prevIsActive_handlers:
  "prevIsActive (setSearchQuery t s) = prevIsActive s"
  "prevIsActive (handleSelectedContactIdsChange v s) = prevIsActive s"
  by (simp_all add: prevIsActive_def setSearchQuery_def handleSelectedContactIdsChange_def)

lemma risingEdge_after_render:
  "risingEdge (render p s) p' = (\<not> truthy (isActive p) \<and> truthy (isActive p'))"
  by (simp add: risingEdge_def prevIsActive_render)

lemma risingEdge_after_change:
  "risingEdge (handleSelectedContactIdsChange v (render p s)) p'
     = (\<not> truthy (isActive p) \<and> truthy (isActive p'))"
  by (simp add: risingEdge_def prevIsActive_render prevIsActive_handlers)

lemma risingEdge_initialState: "risingEdge initialState p = truthy (isActive p)"
  by (simp add: risingEdge_def prevIsActive_def initialState_def)

text \<open>
  C5. The working selection is reset to the baseline, and the submit flag cleared, exactly
  on a render with the flag true that follows a render with the flag falsy (or is the
  first render): an inactive render followed by an active one resets, also when the
  selection was edited in between; any other pair of consecutive renders, whatever the
  props of the second (a new baseline included), leaves both as they are, so activating
  twice in a row does not reset the second time. The flag remembered for the next render
  is always that of the last render, and the handlers do not touch it. Changing the
  search text leaves the selection and the submit flag alone.
\<close>

theorem reset_only_on_activation:
  "(\<not> truthy (isActive p) \<and> truthy (isActive p') \<longrightarrow>
      newSelectedContactIds (render p' (render p s)) = closeFriendIds p'
      \<and> \<not> isSubmitShown (render p' (render p s)))
   \<and> (\<not> truthy (isActive p) \<and> truthy (isActive p') \<longrightarrow>
        newSelectedContactIds (render p' (handleSelectedContactIdsChange v (render p s)))
          = closeFriendIds p'
        \<and> \<not> isSubmitShown (render p' (handleSelectedContactIdsChange v (render p s))))
   \<and> (truthy (isActive p) \<or> \<not> truthy (isActive p') \<longrightarrow>
        newSelectedContactIds (render p' (render p s)) = newSelectedContactIds (render p s)
        \<and> isSubmitShown (render p' (render p s)) = isSubmitShown (render p s))
   \<and> (truthy (isActive p) \<or> \<not> truthy (isActive p') \<longrightarrow>
        newSelectedContactIds (render p' (handleSelectedContactIdsChange v (render p s))) = v
        \<and> isSubmitShown (render p' (handleSelectedContactIdsChange v (render p s))))
   \<and> (truthy (isActive p) \<longrightarrow>
        newSelectedContactIds (render p initialState) = closeFriendIds p
        \<and> \<not> isSubmitShown (render p initialState))
   \<and> (\<not> truthy (isActive p) \<longrightarrow>
        newSelectedContactIds (render p initialState) = newSelectedContactIds initialState
        \<and> isSubmitShown (render p initialState) = isSubmitShown initialState)
   \<and> prevIsActive (render p s) = isActive p
   \<and> prevIsActive (setSearchQuery t s) = prevIsActive s
   \<and> prevIsActive (handleSelectedContactIdsChange v s) = prevIsActive s
   \<and> (risingEdge s p \<longrightarrow>
        newSelectedContactIds (render p s) = closeFriendIds p \<and> \<not> isSubmitShown (render p s))
   \<and> (\<not> risingEdge s p \<longrightarrow>
        newSelectedContactIds (render p s) = newSelectedContactIds s
        \<and> isSubmitShown (render p s) = isSubmitShown s)
   \<and> (truthy (isActive p) \<longrightarrow>
        newSelectedContactIds (render p' (render p s)) = newSelectedContactIds (render p s)
        \<and> isSubmitShown (render p' (render p s)) = isSubmitShown (render p s))
   \<and> newSelectedContactIds (setSearchQuery t s) = newSelectedContactIds s
   \<and> isSubmitShown (setSearchQuery t s) = isSubmitShown s"
proof -
  have two_reset: "newSelectedContactIds (render p' (render p s)) = closeFriendIds p'
      \<and> \<not> isSubmitShown (render p' (render p s))"
    if "\<not> truthy (isActive p) \<and> truthy (isActive p')"
    using that render_rising [of "render p s" p'] by (simp add: risingEdge_after_render)
  have edit_reset: "newSelectedContactIds (render p' (handleSelectedContactIdsChange v (render p s)))
          = closeFriendIds p'
        \<and> \<not> isSubmitShown (render p' (handleSelectedContactIdsChange v (render p s)))"
    if "\<not> truthy (isActive p) \<and> truthy (isActive p')"
    using that render_rising [of "handleSelectedContactIdsChange v (render p s)" p']
    by (simp add: risingEdge_after_change)
  have two_keep: "newSelectedContactIds (render p' (render p s)) = newSelectedContactIds (render p s)
        \<and> isSubmitShown (render p' (render p s)) = isSubmitShown (render p s)"
    if "truthy (isActive p) \<or> \<not> truthy (isActive p')"
    using that render_not_rising [of "render p s" p'] by (auto simp: risingEdge_after_render)
  have edit_keep: "newSelectedContactIds (render p' (handleSelectedContactIdsChange v (render p s))) = v
        \<and> isSubmitShown (render p' (handleSelectedContactIdsChange v (render p s)))"
    if "truthy (isActive p) \<or> \<not> truthy (isActive p')"
  proof -
    from that have "\<not> risingEdge (handleSelectedContactIdsChange v (render p s)) p'"
      by (auto simp: risingEdge_after_change)
    from render_not_rising [OF this] show ?thesis
      by (simp add: handleSelectedContactIdsChange_def)
  qed
  have mount_reset: "newSelectedContactIds (render p initialState) = closeFriendIds p
        \<and> \<not> isSubmitShown (render p initialState)"
    if "truthy (isActive p)"
    using that render_rising [of initialState p] by (simp add: risingEdge_initialState)
  have mount_keep: "newSelectedContactIds (render p initialState) = newSelectedContactIds initialState
        \<and> isSubmitShown (render p initialState) = isSubmitShown initialState"
    if "\<not> truthy (isActive p)"
    using that render_not_rising [of initialState p] by (simp add: risingEdge_initialState)
  have plain: "newSelectedContactIds (setSearchQuery t s) = newSelectedContactIds s"
    "isSubmitShown (setSearchQuery t s) = isSubmitShown s"
    by (simp_all add: setSearchQuery_def)
  show ?thesis
    using two_reset edit_reset two_keep edit_keep mount_reset mount_keep plain
      prevIsActive_render [of p s] prevIsActive_handlers(1) [of t s]
      prevIsActive_handlers(2) [of v s] render_rising [of s p] render_not_rising [of s p]
    by blast
qed

theorem reset_only_on_activation_witness:
  "\<not> truthy (isActive inactiveProps) \<and> truthy (isActive exProps)
   \<and> newSelectedContactIds editedState = [''A'', ''C'']
   \<and> newSelectedContactIds (render inactiveProps editedState) = [''A'', ''C'']
   \<and> newSelectedContactIds (render exProps (render inactiveProps editedState)) = [''A'', ''B'']
   \<and> \<not> isSubmitShown (render exProps (render inactiveProps editedState))
   \<and> newSelectedContactIds (render exProps (render exProps editedState)) = [''A'', ''C'']
   \<and> isSubmitShown (render exProps (render exProps editedState))
   \<and> newSelectedContactIds (render moreFriendsProps (render exProps editedState)) = [''A'', ''C'']
   \<and> newSelectedContactIds (render exProps initialState) = [''A'', ''B'']
   \<and> \<not> isSubmitShown (render exProps initialState)
   \<and> risingEdge initialState exProps
   \<and> \<not> risingEdge editedState moreFriendsProps
   \<and> newSelectedContactIds (render moreFriendsProps editedState) = [''A'', ''C'']"
proof -
  have i: "\<not> truthy (isActive inactiveProps)"
    by (simp add: inactiveProps_def)
  have a: "truthy (isActive exProps)" "truthy (isActive moreFriendsProps)"
    by (simp_all add: exProps_def moreFriendsProps_def)
  have e: "newSelectedContactIds editedState = [''A'', ''C'']" "isSubmitShown editedState"
    by (simp_all add: editedState_eq)
  have r: "risingEdge initialState exProps"
    by (simp add: risingEdge_def prevIsActive_def initialState_def exProps_def)
  have n: "\<not> risingEdge editedState moreFriendsProps" "\<not> risingEdge editedState exProps"
    "\<not> risingEdge editedState inactiveProps"
    by (simp_all add: risingEdge_def prevIsActive_def editedState_eq)
  note c = closeFriendIds_exProps
  note t1 = reset_only_on_activation [of inactiveProps exProps editedState "[]" "[]"]
  note t2 = reset_only_on_activation [of exProps exProps editedState "[]" "[]"]
  note t3 = reset_only_on_activation [of exProps moreFriendsProps editedState "[]" "[]"]
  note t4 = reset_only_on_activation [of exProps exProps initialState "[]" "[]"]
  note t5 = reset_only_on_activation [of moreFriendsProps exProps editedState "[]" "[]"]
  note t6 = reset_only_on_activation [of inactiveProps exProps editedState "[]" "[]"]
  have 1: "newSelectedContactIds (render inactiveProps editedState) = [''A'', ''C'']"
    using t6 n(3) e(1) by simp
  have 2: "newSelectedContactIds (render exProps (render inactiveProps editedState)) = [''A'', ''B'']
      \<and> \<not> isSubmitShown (render exProps (render inactiveProps editedState))"
    using t1 i a(1) c by simp
  have 3: "newSelectedContactIds (render exProps editedState) = [''A'', ''C'']
      \<and> isSubmitShown (render exProps editedState)"
    using t2 n(2) e by simp
  have 4: "newSelectedContactIds (render exProps (render exProps editedState)) = [''A'', ''C'']
      \<and> isSubmitShown (render exProps (render exProps editedState))"
    using t2 a(1) 3 by simp
  have 5: "newSelectedContactIds (render moreFriendsProps (render exProps editedState)) = [''A'', ''C'']"
    using t3 a(1) 3 by simp
  have 6: "newSelectedContactIds (render exProps initialState) = [''A'', ''B'']
      \<and> \<not> isSubmitShown (render exProps initialState)"
    using t4 a(1) c by simp
  have 7: "newSelectedContactIds (render moreFriendsProps editedState) = [''A'', ''C'']"
    using t5 n(1) e(1) by simp
  from i a e r n 1 2 3 4 5 6 7 show ?thesis by simp
qed

text \<open>
  C8. After \<^verbatim>\<open>handleSelectedContactIdsChange v\<close>, whatever the state and the baseline
  before, \<^verbatim>\<open>handleSubmit\<close> calls \<^verbatim>\<open>saveCloseFriends\<close> once with exactly \<open>v\<close> and then
  \<^verbatim>\<open>onClose\<close>; the same holds with the re-render that follows the state change in between,
  as long as that render is not an activation.
\<close>

theorem change_then_submit:
  "handleSubmit (handleSelectedContactIdsChange v s) = [SaveCloseFriends v, OnClose]
   \<and> (\<not> risingEdge s p \<longrightarrow>
        handleSubmit (render p (handleSelectedContactIdsChange v s)) = [SaveCloseFriends v, OnClose])"
proof (intro conjI impI)
  show "handleSubmit (handleSelectedContactIdsChange v s) = [SaveCloseFriends v, OnClose]"
    by (simp add: handleSubmit_def handleSelectedContactIdsChange_def)
next
  assume "\<not> risingEdge s p"
  then have "\<not> risingEdge (handleSelectedContactIdsChange v s) p"
    by (simp add: risingEdge_def prevIsActive_def handleSelectedContactIdsChange_def)
  from render_not_rising [OF this]
  show "handleSubmit (render p (handleSelectedContactIdsChange v s)) = [SaveCloseFriends v, OnClose]"
    by (simp add: handleSubmit_def handleSelectedContactIdsChange_def)
qed

theorem change_then_submit_witness:
  "newSelectedContactIds (render exProps initialState) = [''A'', ''B'']
   \<and> \<not> risingEdge (render exProps initialState) exProps
   \<and> handleSubmit (render exProps
        (handleSelectedContactIdsChange [''A'', ''C''] (render exProps initialState)))
      = [SaveCloseFriends [''A'', ''C''], OnClose]"
proof -
  have n: "\<not> risingEdge (render exProps initialState) exProps"
    by (simp add: risingEdge_def prevIsActive_def render_exProps_initialState)
  have b: "newSelectedContactIds (render exProps initialState) = [''A'', ''B'']"
    by (simp add: render_exProps_initialState)
  from change_then_submit [of "[''A'', ''C'']" "render exProps initialState" exProps] n b
  show ?thesis by blast
qed

text \<open>
  C9. Setting the same search text twice gives the same \<open>displayedIds\<close> as setting it
  once, and \<open>displayedIds\<close> depends on nothing but the search text, the contact list, the
  user table and the acting user's ID: neither the working selection, the submit flag nor
  the active flag enters.
\<close>

theorem displayedIds_pure:
  "displayedIds m p (setSearchQuery t (setSearchQuery t s)) = displayedIds m p (setSearchQuery t s)
   \<and> (searchQuery s = searchQuery s' \<and> contactListIds p = contactListIds p'
        \<and> usersById p = usersById p' \<and> currentUserId p = currentUserId p'
      \<longrightarrow> displayedIds m p s = displayedIds m p' s')"
  by (simp add: displayedIds_def setSearchQuery_def closeFriendIds_def contactList_def)

theorem displayedIds_pure_witness:
  "searchQuery (setSearchQuery ''ar'' initialState) = searchQuery (setSearchQuery ''ar'' editedState)
   \<and> contactListIds exProps = contactListIds inactiveProps
   \<and> usersById exProps = usersById inactiveProps
   \<and> currentUserId exProps = currentUserId inactiveProps
   \<and> displayedIds firstNameMatches exProps (setSearchQuery ''ar'' initialState) = [''C'']
   \<and> displayedIds firstNameMatches inactiveProps (setSearchQuery ''ar'' editedState) = [''C'']"
proof -
  have h: "searchQuery (setSearchQuery ''ar'' initialState) = searchQuery (setSearchQuery ''ar'' editedState)
   \<and> contactListIds exProps = contactListIds inactiveProps
   \<and> usersById exProps = usersById inactiveProps
   \<and> currentUserId exProps = currentUserId inactiveProps"
    by (simp add: setSearchQuery_def inactiveProps_def)
  have v: "displayedIds firstNameMatches exProps (setSearchQuery ''ar'' initialState) = [''C'']"
    by (simp add: displayedIds_def closeFriendIds_def contactList_def exProps_def exUsers_def
        filterUsersByName_def initialState_def setSearchQuery_def firstNameMatches_def)
  from displayedIds_pure [of firstNameMatches exProps "''ar''"
        "setSearchQuery ''ar'' initialState" "setSearchQuery ''ar'' editedState" inactiveProps] h v
  show ?thesis by simp
qed


end
